theory Spec2Isabelle
  imports Main "HOL-Library.Word"
begin

section \<open>The ZSpy plugin of HyperSpy (hyperspy/io\_plugins/zspy.py)\<close>

text \<open>
  The plugin is the zarr back end of HyperSpy's hierarchical file format. Its own code is
  the chunk planner \<open>_get_signal_chunks\<close>, the two dataset hooks \<open>get_object_dset\<close> and
  \<open>_store_data\<close>, and the entry points \<open>file_writer\<close> and \<open>file_reader\<close>. The calls it
  makes into zarr, dask and the inherited hierarchical writer and reader are effects: the
  model records each call with its arguments, or takes the collaborator as a parameter.
  A leading underscore is not an Isabelle identifier, so \<open>_get_signal_chunks\<close> is
  \<open>get_signal_chunks\<close> and \<open>_store_data\<close> is \<open>store_data\<close> here.
\<close>

subsection \<open>Array element types\<close>

text \<open>
  The numpy element types the plugin meets, with \<open>np.dtype(dtype).itemsize\<close>. A unicode
  type of \<open>n\<close> characters takes four bytes a character, a byte string type of \<open>n\<close>
  characters one; an object array holds pointers.
\<close>

datatype dtype =
    bool8 | int8 | int16 | int32 | int64
  | uint8 | uint16 | uint32 | uint64
  | float16 | float32 | float64
  | complex64 | complex128
  | object
  | unicode nat
  | bytes nat

fun itemsize :: "dtype \<Rightarrow> nat" where
  "itemsize bool8 = 1"
| "itemsize int8 = 1"
| "itemsize int16 = 2"
| "itemsize int32 = 4"
| "itemsize int64 = 8"
| "itemsize uint8 = 1"
| "itemsize uint16 = 2"
| "itemsize uint32 = 4"
| "itemsize uint64 = 8"
| "itemsize float16 = 2"
| "itemsize float32 = 4"
| "itemsize float64 = 8"
| "itemsize complex64 = 8"
| "itemsize complex128 = 16"
| "itemsize object = 8"
| "itemsize (unicode n) = 4 * n"
| "itemsize (bytes n) = n"

subsection \<open>The chunk planner\<close>

text \<open>
  \<open>np.prod(shape)\<close> of a tuple of Python integers is a 64-bit signed numpy integer, and
  so is its product with the item size: both wrap around. \<open>np_prod\<close> is the product as
  numpy computes it, \<open>total_size\<close> the number that the planner compares with \<open>1e8\<close>.
\<close>

definition np_prod :: "nat list \<Rightarrow> 64 word" where
  "np_prod shape = foldl (\<lambda>acc n. acc * of_nat n) 1 shape"

definition total_size :: "nat list \<Rightarrow> nat \<Rightarrow> int" where
  "total_size shape typesize = sint (np_prod shape * of_nat typesize)"

text \<open>
  The planner itself. A chunk shape is a list of extents, \<open>None\<close> is Python's \<open>None\<close>.
  The source has two \<open>return None\<close> statements and then ends: a call that passes both
  guards runs off the end of the body, which in Python returns \<open>None\<close> as well. That is
  the last \<open>else\<close> branch below.
\<close>

definition get_signal_chunks :: "nat list \<Rightarrow> dtype \<Rightarrow> nat list option \<Rightarrow> nat list option" where
  "get_signal_chunks shape dt signal_axes =
     (let typesize = itemsize dt in
      case signal_axes of
        None \<Rightarrow> None
      | Some axes \<Rightarrow>
          if total_size shape typesize < 100000000 then None
          else None)"

subsection \<open>Exceptions and options\<close>

text \<open>
  The exceptions that the modelled calls raise, by their Python names; \<open>PyException\<close> is
  any other exception, raised by a collaborator.
\<close>

datatype error =
    ContainsGroupError string
  | ContainsArrayError string
  | AttributeError string
  | ValueError string
  | ZeroDivisionError
  | PyException string

text \<open>
  The object codecs of numcodecs that the plugin names: \<open>VLenArray(int)\<close>, for sequences
  of integers of variable length, and \<open>JSON()\<close>.
\<close>

datatype object_codec = VLenArray_int | JSON

text \<open>
  The extra keyword arguments \<open>**kwds\<close> are a dictionary from option names to Python
  values. \<open>truthy\<close> is Python's truth value of such a value. Python refuses a call that
  is given one keyword twice; the options are taken not to hold a keyword that a call
  of the plugin passes by itself.
\<close>

datatype kwval =
    KNone
  | KBool bool
  | KInt int
  | KStr string
  | KTuple "nat list"
  | KDtype dtype
  | KBlosc string nat
  | KCodec object_codec

type_synonym kwds = "string \<rightharpoonup> kwval"

fun truthy :: "kwval \<Rightarrow> bool" where
  "truthy KNone = False"
| "truthy (KBool b) = b"
| "truthy (KInt i) = (i \<noteq> 0)"
| "truthy (KStr s) = (s \<noteq> [])"
| "truthy (KTuple xs) = (xs \<noteq> [])"
| "truthy (KDtype d) = True"
| "truthy (KBlosc cname clevel) = True"
| "truthy (KCodec c) = True"

subsection \<open>The zarr hierarchy\<close>

text \<open>
  A zarr hierarchy is a tree: a group has attributes and named members, an array has
  attributes and a content, which stays abstract here. The file system maps a path to
  the root node stored there.
\<close>

datatype 'd node =
    Group (attrs: "string \<rightharpoonup> string") (members: "string \<rightharpoonup> 'd node")
  | Array (attrs: "string \<rightharpoonup> string") (content: 'd)

type_synonym 'd fs = "string \<rightharpoonup> 'd node"

definition empty_group :: "'d node" where
  "empty_group = Group Map.empty Map.empty"

text \<open>\<open>f['a/b']\<close>: the node at a path of member names below a node.\<close>

fun get_path :: "string list \<Rightarrow> 'd node \<Rightarrow> 'd node option" where
  "get_path [] n = Some n"
| "get_path (k # ks) (Group a ms) = (case ms k of None \<Rightarrow> None | Some c \<Rightarrow> get_path ks c)"
| "get_path (k # ks) (Array a c) = None"

text \<open>\<open>f.attrs[k] = v\<close>, on a group or an array.\<close>

fun set_attr :: "string \<Rightarrow> string \<Rightarrow> 'd node \<Rightarrow> 'd node" where
  "set_attr k v (Group a ms) = Group (a(k \<mapsto> v)) ms"
| "set_attr k v (Array a c) = Array (a(k \<mapsto> v)) c"

text \<open>
  \<open>g.create_group(name)\<close> without \<open>overwrite\<close>: zarr refuses a name that is taken, and an
  array has no such method. The result is the parent with its new, empty member, and
  that member.
\<close>

fun create_group :: "string \<Rightarrow> 'd node \<Rightarrow> error + 'd node \<times> 'd node" where
  "create_group name (Group a ms) =
     (case ms name of
        None \<Rightarrow> Inr (Group a (ms(name \<mapsto> empty_group)), empty_group)
      | Some (Group a' ms') \<Rightarrow> Inl (ContainsGroupError name)
      | Some (Array a' c) \<Rightarrow> Inl (ContainsArrayError name))"
| "create_group name (Array a c) = Inl (AttributeError ''create_group'')"

text \<open>
  A group handle is a reference into the hierarchy: what is written through the handle of
  a member is seen from its parent. \<open>put_member\<close> stores the member back.
\<close>

fun put_member :: "string \<Rightarrow> 'd node \<Rightarrow> 'd node \<Rightarrow> 'd node" where
  "put_member name c (Group a ms) = Group a (ms(name \<mapsto> c))"
| "put_member name c (Array a d) = Array a d"

text \<open>
  \<open>zarr.open(filename)\<close> in its default mode \<open>a\<close> opens what is at the path and creates
  an empty group when nothing is there; \<open>zarr.group(store=store, overwrite=True)\<close> on a
  directory store of the path erases what is there and creates an empty group.
\<close>

definition zarr_open :: "'d fs \<Rightarrow> string \<Rightarrow> 'd node" where
  "zarr_open fs filename = (case fs filename of None \<Rightarrow> empty_group | Some n \<Rightarrow> n)"

definition zarr_group_overwrite :: "'d fs \<Rightarrow> string \<Rightarrow> 'd node" where
  "zarr_group_overwrite fs filename = empty_group"

subsection \<open>The signal and the hierarchical writer\<close>

text \<open>
  What \<open>file_writer\<close> reads and writes of a signal: \<open>metadata.General.title\<close>,
  \<open>axes_manager.signal_dimension\<close> and the node \<open>metadata.Signal\<close>, a dictionary of
  fields. The rest of the signal (data, axes, the other metadata) is \<open>payload\<close>.
\<close>

record 's signal =
  General_title :: string
  signal_dimension :: nat
  metadata_Signal :: "string \<rightharpoonup> string"
  payload :: 's

text \<open>
  Modelled from the spec: the class \<open>HierarchicalWriter\<close> of
  \<open>hyperspy/io_plugins/hierarchical.py\<close>, which \<open>ZspyWriter\<close> extends, is not among the
  sources. By sections 2 and 4.4 of the specification the writer walks the signal and
  creates the layout of the experiment group. It is a parameter here: \<open>writer_init\<close> is
  \<open>ZspyWriter(f, signal, expg, **kwds)\<close>, which returns or raises, and \<open>writer_write\<close> is
  \<open>writer.write()\<close>, which reads the options and the signal, leaves the experiment
  group in some state, and returns or raises.
\<close>

record ('s, 'd) writer =
  writer_init :: "kwds \<Rightarrow> 's signal \<Rightarrow> error option"
  writer_write :: "kwds \<Rightarrow> 's signal \<Rightarrow> 'd node \<Rightarrow> error option \<times> 'd node"

subsection \<open>The entry point \<open>file_writer\<close>\<close>

text \<open>The test \<open>"write_to_storage" in kwds and kwds["write_to_storage"]\<close>.\<close>

definition write_to_storage :: "kwds \<Rightarrow> bool" where
  "write_to_storage kwds =
     (case kwds ''write_to_storage'' of None \<Rightarrow> False | Some v \<Rightarrow> truthy v)"

text \<open>Lines 182 to 191: the options, the root group and its two attributes.\<close>

definition with_compressor :: "kwds \<Rightarrow> kwds" where
  "with_compressor kwds =
     (if ''compressor'' \<notin> dom kwds then kwds(''compressor'' \<mapsto> KBlosc ''zstd'' 1) else kwds)"

definition open_root :: "string \<Rightarrow> 'd fs \<Rightarrow> string \<Rightarrow> kwds \<Rightarrow> 'd node" where
  "open_root version fs filename kwds =
     (let f = (if write_to_storage kwds then zarr_open fs filename
               else zarr_group_overwrite fs filename)
      in set_attr ''file_format_version'' version (set_attr ''file_format'' ''ZSpy'' f))"

text \<open>
  Lines 193 to 197: the name of the experiment group. \<open>replace\<close> is \<open>str.replace\<close> for
  patterns of one character.
\<close>

definition replace :: "char \<Rightarrow> char \<Rightarrow> string \<Rightarrow> string" where
  "replace old new s = map (\<lambda>c. if c = old then new else c) s"

definition group_name :: "string \<Rightarrow> string" where
  "group_name title =
     (let name = (if title \<noteq> [] then title else ''__unnamed__'')
      in if CHR ''/'' \<in> set name then replace CHR ''/'' CHR ''-'' name else name)"

text \<open>Lines 202 to 207: the value of the transient field.\<close>

definition record_by :: "nat \<Rightarrow> string" where
  "record_by dim = (if dim = 1 then ''spectrum'' else if dim = 2 then ''image'' else [])"

text \<open>
  The writer of a signal to a path. The result is the exception that leaves
  \<open>file_writer\<close>, if any, the file system and the signal as the call leaves them. The
  \<open>try\<close> block runs the two writer calls; its \<open>except BaseException: raise\<close> passes the
  exception on as it is, and the \<open>finally\<close> clause deletes the field on both ways out.
  The writer gets the signal by reference and reads it, so the field is there when
  \<open>del\<close> runs.
\<close>

definition file_writer ::
  "('s, 'd) writer \<Rightarrow> string \<Rightarrow> 'd fs \<Rightarrow> string \<Rightarrow> 's signal \<Rightarrow> kwds
     \<Rightarrow> error option \<times> 'd fs \<times> 's signal" where
  "file_writer w version fs filename signal kwds0 =
     (let kwds = with_compressor kwds0;
          f = open_root version fs filename kwds
      in case create_group ''Experiments'' f of
           Inl e \<Rightarrow> (Some e, fs(filename \<mapsto> f), signal)
         | Inr (f', exps) \<Rightarrow>
             (case create_group (group_name (General_title signal)) exps of
                Inl e \<Rightarrow> (Some e, fs(filename \<mapsto> f'), signal)
              | Inr (exps', expg) \<Rightarrow>
                  (let smd = (metadata_Signal signal)
                               (''record_by'' \<mapsto> record_by (signal_dimension signal));
                       signal' = signal\<lparr>metadata_Signal := smd\<rparr>;
                       (raised, expg') =
                          (case writer_init w kwds signal' of
                             Some e \<Rightarrow> (Some e, expg)
                           | None \<Rightarrow> writer_write w kwds signal' expg);
                       root = put_member ''Experiments''
                                (put_member (group_name (General_title signal)) expg' exps') f'
                   in (raised, fs(filename \<mapsto> root),
                       signal'\<lparr>metadata_Signal := smd(''record_by'' := None)\<rparr>))))"

subsection \<open>The entry point \<open>file_reader\<close>\<close>

text \<open>
  Modelled from the spec: the class \<open>HierarchicalReader\<close> of
  \<open>hyperspy/io_plugins/hierarchical.py\<close>, which \<open>ZspyReader\<close> extends, and the constant
  \<open>version\<close> of \<open>hyperspy/io_plugins/hspy.py\<close> are not among the sources. By section 4.5
  of the specification the reader holds the stored format version and \<open>read(lazy)\<close>
  returns the payload. The collaborators of \<open>file_reader\<close> are parameters: \<open>open_store\<close>
  is \<open>zarr.open(filename, mode=mode, **kwds)\<close>, \<open>stored_version\<close> is the field
  \<open>version\<close> of \<open>ZspyReader(f)\<close>, \<open>newer\<close> is the comparison \<open>reader.version > version\<close>,
  and \<open>reader_read\<close> is \<open>reader.read(lazy=lazy)\<close>. Each of the three calls returns or
  raises.
\<close>

record ('f, 'v, 'p) reader =
  open_store :: "string \<Rightarrow> kwval \<Rightarrow> kwds \<Rightarrow> error + 'f"
  stored_version :: "'f \<Rightarrow> error + 'v"
  newer :: "'v \<Rightarrow> string \<Rightarrow> bool"
  reader_read :: "'f \<Rightarrow> bool \<Rightarrow> error + 'p"

definition newer_version_warning :: string where
  "newer_version_warning =
     ''This file was written using a newer version of the '' @
     ''HyperSpy zspy file format. I will attempt to load it, but, '' @
     ''if I fail, it is likely that I will be more successful at '' @
     ''this and other tasks if you upgrade me.''"

text \<open>
  The reader of a path. \<open>warnings.warn\<close> adds its message to the warnings issued so
  far, the last argument, and returns. The result is what \<open>file_reader\<close> returns or
  raises, with the warnings issued.
\<close>

definition file_reader ::
  "('f, 'v, 'p) reader \<Rightarrow> string \<Rightarrow> string \<Rightarrow> bool \<Rightarrow> kwds \<Rightarrow> string list
     \<Rightarrow> (error + 'p) \<times> string list" where
  "file_reader r version filename lazy kwds0 warnings =
     (let mode = (case kwds0 ''mode'' of None \<Rightarrow> KStr ''r'' | Some m \<Rightarrow> m);
          kwds = kwds0(''mode'' := None)
      in case open_store r filename mode kwds of
           Inl e \<Rightarrow> (Inl e, warnings)
         | Inr f \<Rightarrow>
             (case stored_version r f of
                Inl e \<Rightarrow> (Inl e, warnings)
              | Inr v \<Rightarrow>
                  (let warnings' = (if newer r v version
                                    then warnings @ [newer_version_warning]
                                    else warnings)
                   in (reader_read r f lazy, warnings'))))"

subsection \<open>The dataset hooks\<close>

text \<open>
  A source array is a dask array, which has a shape, an element type and, for each
  dimension, the tuple of its block lengths, or a numpy array in memory. The elements
  stay abstract.
\<close>

datatype 'a data =
    DaskArray "nat list" dtype "nat list list" 'a
  | NdArray "nat list" dtype 'a

fun shape_of :: "'a data \<Rightarrow> nat list" where
  "shape_of (DaskArray sh dt ch v) = sh"
| "shape_of (NdArray sh dt v) = sh"

text \<open>
  What the hooks read of the target: of the zarr array \<open>dset\<close> its path in the store and
  its chunk shape, which zarr keeps as one tuple of integers; of the group the directory
  of its store and its own path.
\<close>

record dset =
  dset_path :: string
  dset_chunks :: "nat list"

record zgroup =
  dir_path :: string
  group_path :: string

text \<open>
  The calls that the hooks make into zarr and dask, with their arguments:
  \<open>group.require_dataset(key, shape, object_codec=codec, **kwds)\<close>,
  \<open>data.to_zarr(url=url, overwrite=overwrite, **kwds)\<close>, \<open>group[key][:] = data[:]\<close>,
  \<open>zarr.open_array(path, mode=mode, shape=shape, dtype=dtype, chunks=chunks, **kwds)\<close>
  and \<open>dset[:] = data\<close> on the array opened at a path.
\<close>

datatype 'a call =
    RequireDataset zgroup string "nat list" object_codec kwds
  | ToZarr "'a data" string bool kwds
  | SetItems zgroup string "'a data"
  | OpenArray string string "nat list" dtype kwval kwds
  | AssignAll string "'a data"

text \<open>
  \<open>get_object_dset\<close>: the options are copied, the three entries are written over the
  copy, and the data set is required of the group. The result is that call.
\<close>

definition get_object_dset :: "zgroup \<Rightarrow> 'a data \<Rightarrow> string \<Rightarrow> kwval \<Rightarrow> kwds \<Rightarrow> 'a call" where
  "get_object_dset grp data key chunks kwds =
     (let these_kwds = kwds(''dtype'' \<mapsto> KDtype object,
                            ''exact'' \<mapsto> KBool True,
                            ''chunks'' \<mapsto> chunks)
      in RequireDataset grp key (shape_of data) VLenArray_int these_kwds)"

text \<open>
  The comparison \<open>data.chunks != dset.chunks\<close> is Python's comparison of two tuples. The
  entries of \<open>data.chunks\<close> are tuples of block lengths, those of \<open>dset.chunks\<close> are
  integers; a tuple and an integer are never equal.
\<close>

datatype pyentry = EInt nat | ETuple "nat list"

definition chunks_ne :: "nat list list \<Rightarrow> nat list \<Rightarrow> bool" where
  "chunks_ne dc zc = (map ETuple dc \<noteq> map EInt zc)"

text \<open>
  \<open>data.rechunk(chunks)\<close> of dask, for a chunk shape of integers: the extent \<open>d\<close> of a
  dimension is cut into blocks of length \<open>bd\<close> and a shorter last block for the rest; an
  empty dimension is one block of length 0. A chunk shape of another rank is refused.
  An array that has these blocks already is returned as it is.
\<close>

definition blocks :: "nat \<Rightarrow> nat \<Rightarrow> nat list" where
  "blocks d bd =
     (if d = 0 then [0]
      else replicate (d div bd) bd @ (if d mod bd = 0 then [] else [d mod bd]))"

definition normalize_chunks :: "nat list \<Rightarrow> nat list \<Rightarrow> nat list list" where
  "normalize_chunks chunks shape = map (\<lambda>(d, bd). blocks d bd) (zip shape chunks)"

fun rechunk :: "'a data \<Rightarrow> nat list \<Rightarrow> error + 'a data" where
  "rechunk (DaskArray sh dt ch v) chunks =
     (if length chunks \<noteq> length sh
      then Inl (ValueError ''Provided chunks are not consistent with shape'')
      else if list_ex (\<lambda>(d, bd). d \<noteq> 0 \<and> bd = 0) (zip sh chunks) then Inl ZeroDivisionError
      else Inr (DaskArray sh dt (normalize_chunks chunks sh) v))"
| "rechunk (NdArray sh dt v) chunks = Inl (AttributeError ''rechunk'')"

text \<open>
  \<open>_store_data\<close>: the calls it makes, in their order, or the exception of \<open>rechunk\<close>.
  The three branches are tried in the order of the source: a dask array first, whatever
  its element type, then an array of objects, then any other array.
\<close>

fun store_data ::
  "'a data \<Rightarrow> dset \<Rightarrow> zgroup \<Rightarrow> string \<Rightarrow> kwval \<Rightarrow> kwds \<Rightarrow> error + 'a call list" where
  "store_data (DaskArray sh dt ch v) dset grp key chunks kwds =
     (case (if chunks_ne ch (dset_chunks dset)
            then rechunk (DaskArray sh dt ch v) (dset_chunks dset)
            else Inr (DaskArray sh dt ch v)) of
        Inl e \<Rightarrow> Inl e
      | Inr data \<Rightarrow>
          (let path = dir_path grp @ ''/'' @ dset_path dset
           in Inr [ToZarr data path True kwds]))"
| "store_data (NdArray sh dt v) dset grp key chunks kwds =
     (if dt = object then Inr [SetItems grp key (NdArray sh dt v)]
      else (let path = dir_path grp @ ''/'' @ dset_path dset
            in Inr [OpenArray path ''w'' sh dt chunks kwds,
                    AssignAll path (NdArray sh dt v)]))"

text \<open>
  What \<open>to_zarr\<close> does to the arrays of a store, by their paths: without \<open>overwrite\<close> an
  array that is there is an error, with it the array is put in its place.
\<close>

definition to_zarr :: "'a data \<Rightarrow> string \<Rightarrow> bool \<Rightarrow> (string \<rightharpoonup> 'a data) \<Rightarrow> error + (string \<rightharpoonup> 'a data)" where
  "to_zarr data url overwrite store =
     (if \<not> overwrite \<and> url \<in> dom store then Inl (ContainsArrayError url)
      else Inr (store(url \<mapsto> data)))"

subsection \<open>The type codec\<close>

text \<open>
  \<open>ZspyWriter\<close> gives the codec of the hierarchical writer its zarr settings: strings go
  to object arrays with the JSON codec, ragged arrays to object arrays with the codec of
  integer sequences of variable length. The settings are dictionaries of options.
\<close>

definition unicode_kwds :: kwds where
  "unicode_kwds = [''dtype'' \<mapsto> KDtype object, ''object_codec'' \<mapsto> KCodec JSON]"

definition ragged_kwds :: kwds where
  "ragged_kwds = [''dtype'' \<mapsto> KDtype object,
                  ''object_codec'' \<mapsto> KCodec VLenArray_int,
                  ''exact'' \<mapsto> KBool True]"









subsection \<open>Notions of the claims\<close>

text \<open>
  The signal as it is while the writer runs, with the transient field in its metadata,
  and what the two calls of the \<open>try\<close> block raise on that signal.
\<close>

definition injected :: "'s signal \<Rightarrow> 's signal" where
  "injected signal =
     signal\<lparr>metadata_Signal :=
       (metadata_Signal signal)(''record_by'' \<mapsto> record_by (signal_dimension signal))\<rparr>"

definition writer_raises :: "('s, 'd) writer \<Rightarrow> kwds \<Rightarrow> 's signal \<Rightarrow> error option" where
  "writer_raises w kwds signal =
     (case writer_init w kwds signal of
        Some e \<Rightarrow> Some e
      | None \<Rightarrow> fst (writer_write w kwds signal empty_group))"

text \<open>The signal with the transient field removed from its metadata.\<close>

definition cleaned :: "'s signal \<Rightarrow> 's signal" where
  "cleaned signal =
     signal\<lparr>metadata_Signal := (metadata_Signal signal)(''record_by'' := None)\<rparr>"

text \<open>
  Two inputs for the examples: a writer whose construction and \<open>write\<close> return and leave
  the experiment group as it is, and the signal of dimension 1 with a given title and no
  field in \<open>metadata.Signal\<close>.
\<close>

definition idle_writer :: "(unit, unit) writer" where
  "idle_writer = \<lparr>writer_init = \<lambda>kwds signal. None,
                  writer_write = \<lambda>kwds signal expg. (None, expg)\<rparr>"

definition titled :: "string \<Rightarrow> unit signal" where
  "titled title = \<lparr>General_title = title, signal_dimension = 1,
                   metadata_Signal = Map.empty, payload = ()\<rparr>"

section \<open>Properties of the chunk planner\<close>

lemma get_signal_chunks_None: "get_signal_chunks shape dt signal_axes = None"
  by (simp add: get_signal_chunks_def split: option.split)

text \<open>
  Claim C7. For every shape and element type the planner returns \<open>None\<close> when no signal
  axes are given, and also when signal axes are given and the byte size, the product of
  the extents times the item size, is below \<open>10^8\<close>. The byte size is stated both as the
  mathematical product and as the 64-bit number the code computes.
\<close>

theorem get_signal_chunks_defers:
  "get_signal_chunks shape dt None = None
   \<and> (int (prod_list shape * itemsize dt) < 10 ^ 8 \<longrightarrow>
        get_signal_chunks shape dt (Some axes) = None)
   \<and> (total_size shape (itemsize dt) < 10 ^ 8 \<longrightarrow>
        get_signal_chunks shape dt (Some axes) = None)"
  by (simp add: get_signal_chunks_None)

theorem get_signal_chunks_defers_witness:
  "int (prod_list [10, 10, 10] * itemsize float64) < 10 ^ 8
   \<and> total_size [10, 10, 10] (itemsize float64) < 10 ^ 8
   \<and> get_signal_chunks [10, 10, 10] float64 None = None
   \<and> get_signal_chunks [10, 10, 10] float64 (Some [2]) = None"
  using get_signal_chunks_defers [of "[10, 10, 10]" float64 "[2]"]
  by (simp add: total_size_def np_prod_def)

text \<open>
  Claim C1. The claim asks for a chunk shape, not \<open>None\<close>, once signal axes are given and
  the byte size reaches \<open>10^8\<close>. A 10000 by 10000 array of 8-byte floats with signal axis
  1 has 8 * 10^8 bytes, and the planner returns \<open>None\<close> for it: the body ends after the
  size guard.
\<close>

theorem get_signal_chunks_large_is_None:
  "int (prod_list [10000, 10000] * itemsize float64) = 800000000
   \<and> total_size [10000, 10000] (itemsize float64) = 800000000
   \<and> get_signal_chunks [10000, 10000] float64 (Some [1]) = None"
  by (simp add: total_size_def np_prod_def get_signal_chunks_def)

section \<open>Properties of \<open>file_writer\<close>\<close>

lemma write_to_storage_with_compressor:
  "write_to_storage (with_compressor kwds) = write_to_storage kwds"
  by (simp add: write_to_storage_def with_compressor_def)

lemma create_group_Inr:
  assumes "create_group name f = Inr (f', g)"
  shows "\<exists>a ms. f = Group a ms \<and> ms name = None
           \<and> f' = Group a (ms(name \<mapsto> empty_group)) \<and> g = empty_group"
  using assms by (cases f) (auto split: option.splits node.splits)

lemma create_group_empty:
  "create_group name (empty_group :: 'd node)
     = Inr (Group Map.empty [name \<mapsto> empty_group], empty_group)"
  by (simp add: empty_group_def)


lemma file_writer_runs:
  assumes "create_group ''Experiments'' (open_root version fs filename (with_compressor kwds))
             = Inr (f', exps)"
  shows "file_writer w version fs filename signal kwds =
           (case (case writer_init w (with_compressor kwds) (injected signal) of
                    Some e \<Rightarrow> (Some e, empty_group)
                  | None \<Rightarrow> writer_write w (with_compressor kwds) (injected signal) empty_group) of
              (raised, expg') \<Rightarrow>
                (raised,
                 fs(filename \<mapsto> put_member ''Experiments''
                      (Group Map.empty [group_name (General_title signal) \<mapsto> expg']) f'),
                 cleaned signal))"
proof -
  from create_group_Inr [OF assms] have exps: "exps = empty_group"
    by blast
  have clean: "injected signal\<lparr>metadata_Signal :=
                 ((metadata_Signal signal)(''record_by'' \<mapsto> record_by (signal_dimension signal)))
                   (''record_by'' := None)\<rparr> = cleaned signal"
    by (simp add: injected_def cleaned_def)
  show ?thesis
    using assms clean
    by (simp add: file_writer_def Let_def exps create_group_empty injected_def
             split: option.split prod.split)
qed






lemma open_root_fresh:
  assumes "\<not> write_to_storage kwds"
  shows "open_root version fs filename (with_compressor kwds) =
           Group [''file_format'' \<mapsto> ''ZSpy'', ''file_format_version'' \<mapsto> version] Map.empty"
  using assms
  by (simp add: open_root_def write_to_storage_with_compressor zarr_group_overwrite_def
        empty_group_def)

lemma file_writer_fresh:
  assumes "\<not> write_to_storage kwds"
  shows "file_writer w version fs filename signal kwds =
           (case (case writer_init w (with_compressor kwds) (injected signal) of
                    Some e \<Rightarrow> (Some e, empty_group)
                  | None \<Rightarrow> writer_write w (with_compressor kwds) (injected signal) empty_group) of
              (raised, expg') \<Rightarrow>
                (raised,
                 fs(filename \<mapsto>
                      Group [''file_format'' \<mapsto> ''ZSpy'', ''file_format_version'' \<mapsto> version]
                        [''Experiments'' \<mapsto>
                           Group Map.empty [group_name (General_title signal) \<mapsto> expg']]),
                 cleaned signal))"
proof -
  have "create_group ''Experiments'' (open_root version fs filename (with_compressor kwds))
          = Inr (Group [''file_format'' \<mapsto> ''ZSpy'', ''file_format_version'' \<mapsto> version]
                   [''Experiments'' \<mapsto> empty_group], empty_group)"
    by (simp add: open_root_fresh [OF assms])
  from file_writer_runs [OF this, where w = w and signal = signal]
  show ?thesis
    by (simp split: prod.split)
qed



text \<open>
  Claim C2. When the call reaches the writer, that is when the group \<open>Experiments\<close> could
  be created in the root, the writer runs on the signal with \<open>record_by\<close> in its metadata,
  with the value \<open>spectrum\<close> for signal dimension 1, \<open>image\<close> for 2 and the empty string
  otherwise. Whatever the construction of the writer or its \<open>write\<close> raises is what
  \<open>file_writer\<close> raises, and a normal return is a normal return. On both ways out the
  signal is left as it was given, but without the field \<open>record_by\<close>.
\<close>

theorem file_writer_record_by_cleanup:
  assumes "create_group ''Experiments'' (open_root version fs filename (with_compressor kwds))
             = Inr (f', exps)"
  shows "fst (file_writer w version fs filename signal kwds)
           = writer_raises w (with_compressor kwds) (injected signal)
       \<and> metadata_Signal (injected signal) ''record_by''
           = Some (if signal_dimension signal = 1 then ''spectrum''
                   else if signal_dimension signal = 2 then ''image'' else [])
       \<and> snd (snd (file_writer w version fs filename signal kwds)) = cleaned signal
       \<and> metadata_Signal (snd (snd (file_writer w version fs filename signal kwds))) ''record_by''
           = None"
proof -
  note run = file_writer_runs [OF assms, where w = w and signal = signal]
  have "fst (file_writer w version fs filename signal kwds)
          = writer_raises w (with_compressor kwds) (injected signal)"
    by (simp add: run writer_raises_def split: option.split prod.split)
  moreover have "metadata_Signal (injected signal) ''record_by''
           = Some (if signal_dimension signal = 1 then ''spectrum''
                   else if signal_dimension signal = 2 then ''image'' else [])"
    by (simp add: injected_def record_by_def)
  moreover have "snd (snd (file_writer w version fs filename signal kwds)) = cleaned signal"
    by (simp add: run split: option.split prod.split)
  moreover have "metadata_Signal (cleaned signal) ''record_by'' = None"
    by (simp add: cleaned_def)
  ultimately show ?thesis
    by simp
qed

theorem file_writer_record_by_cleanup_witness:
  "create_group ''Experiments''
      (open_root ''3.1'' Map.empty ''c.zspy'' (with_compressor Map.empty))
     = Inr (Group [''file_format'' \<mapsto> ''ZSpy'', ''file_format_version'' \<mapsto> ''3.1'']
              [''Experiments'' \<mapsto> empty_group], empty_group :: unit node)
   \<and> file_writer
        \<lparr>writer_init = \<lambda>k s. None,
         writer_write = \<lambda>k s (g :: unit node).
           (Some (PyException ''OSError''),
            set_attr ''record_by''
              (case metadata_Signal s ''record_by'' of None \<Rightarrow> ''absent'' | Some r \<Rightarrow> r) g)\<rparr>
        ''3.1'' Map.empty ''c.zspy''
        \<lparr>General_title = ''map'', signal_dimension = 2,
         metadata_Signal = [''signal_type'' \<mapsto> ''EDS''], payload = ()\<rparr>
        Map.empty
     = (Some (PyException ''OSError''),
        [''c.zspy'' \<mapsto>
           Group [''file_format'' \<mapsto> ''ZSpy'', ''file_format_version'' \<mapsto> ''3.1'']
             [''Experiments'' \<mapsto>
                Group Map.empty [''map'' \<mapsto> Group [''record_by'' \<mapsto> ''image''] Map.empty]]],
        \<lparr>General_title = ''map'', signal_dimension = 2,
         metadata_Signal = [''signal_type'' \<mapsto> ''EDS''], payload = ()\<rparr>)"
proof -
  let ?w = "\<lparr>writer_init = \<lambda>k s. None,
         writer_write = \<lambda>k (s :: unit signal) (g :: unit node).
           (Some (PyException ''OSError''),
            set_attr ''record_by''
              (case metadata_Signal s ''record_by'' of None \<Rightarrow> ''absent'' | Some r \<Rightarrow> r) g)\<rparr>"
  let ?s = "\<lparr>General_title = ''map'', signal_dimension = 2,
         metadata_Signal = [''signal_type'' \<mapsto> ''EDS''], payload = ()\<rparr>"
  have off: "\<not> write_to_storage Map.empty"
    by (simp add: write_to_storage_def)
  have reach: "create_group ''Experiments''
      (open_root ''3.1'' Map.empty ''c.zspy'' (with_compressor Map.empty))
     = Inr (Group [''file_format'' \<mapsto> ''ZSpy'', ''file_format_version'' \<mapsto> ''3.1'']
              [''Experiments'' \<mapsto> empty_group], empty_group :: unit node)"
    by (simp add: open_root_fresh [OF off])
  have run: "file_writer ?w ''3.1'' Map.empty ''c.zspy'' ?s Map.empty
     = (Some (PyException ''OSError''),
        [''c.zspy'' \<mapsto>
           Group [''file_format'' \<mapsto> ''ZSpy'', ''file_format_version'' \<mapsto> ''3.1'']
             [''Experiments'' \<mapsto>
                Group Map.empty [''map'' \<mapsto> Group [''record_by'' \<mapsto> ''image''] Map.empty]]],
        ?s)"
    by (simp add: file_writer_fresh [OF off] injected_def cleaned_def group_name_def
          empty_group_def record_by_def)
  from file_writer_record_by_cleanup [OF reach, where w = ?w and signal = ?s] reach run
  show ?thesis
    by (simp add: writer_raises_def injected_def cleaned_def)
qed

text \<open>
  Claim C4, as amended. A call of \<open>file_writer\<close> without a true \<open>write_to_storage\<close> option
  creates the root afresh: what it raises and what it leaves at the path are the same
  for a path that holds a tree and for a fresh path. The root it leaves has the one
  member \<open>Experiments\<close>, which has the one member named after the signal, so that no key
  of the tree that was there is left.
\<close>

theorem file_writer_replaces_prior_tree:
  assumes "\<not> write_to_storage kwds"
    and "fs filename = Some prior"
    and "fs' filename' = None"
  shows "fst (file_writer w version fs filename signal kwds)
           = fst (file_writer w version fs' filename' signal kwds)
       \<and> fst (snd (file_writer w version fs filename signal kwds)) filename
           = fst (snd (file_writer w version fs' filename' signal kwds)) filename'
       \<and> (\<exists>root exps.
             fst (snd (file_writer w version fs filename signal kwds)) filename = Some root
           \<and> dom (members root) = {''Experiments''}
           \<and> members root ''Experiments'' = Some exps
           \<and> dom (members exps) = {group_name (General_title signal)})"
proof -
  note fresh = file_writer_fresh [OF assms(1), where w = w and version = version
                                  and signal = signal]
  have "fst (file_writer w version fs filename signal kwds)
          = fst (file_writer w version fs' filename' signal kwds)"
    by (simp add: fresh split: option.split prod.split)
  moreover
  have "fst (snd (file_writer w version fs filename signal kwds)) filename
          = fst (snd (file_writer w version fs' filename' signal kwds)) filename'"
    by (simp add: fresh split: option.split prod.split)
  moreover
  have "\<exists>root exps.
             fst (snd (file_writer w version fs filename signal kwds)) filename = Some root
           \<and> dom (members root) = {''Experiments''}
           \<and> members root ''Experiments'' = Some exps
           \<and> dom (members exps) = {group_name (General_title signal)}"
    by (simp add: fresh split: option.split prod.split)
  ultimately show ?thesis
    by blast
qed

theorem file_writer_replaces_prior_tree_witness:
  "\<not> write_to_storage [''compressor'' \<mapsto> KNone]
   \<and> fst (snd (file_writer \<lparr>writer_init = \<lambda>k s. None, writer_write = \<lambda>k s g. (None, g)\<rparr>
        ''3.1''
        [''d.zspy'' \<mapsto> Group [''file_format'' \<mapsto> ''ZSpy'']
                         [''Experiments'' \<mapsto> Group Map.empty [''first'' \<mapsto> empty_group],
                          ''notes'' \<mapsto> empty_group]]
        ''d.zspy''
        \<lparr>General_title = ''second'', signal_dimension = 1, metadata_Signal = Map.empty,
         payload = ()\<rparr>
        [''compressor'' \<mapsto> KNone])) ''d.zspy''
     = Some (Group [''file_format'' \<mapsto> ''ZSpy'', ''file_format_version'' \<mapsto> ''3.1'']
               [''Experiments'' \<mapsto> Group Map.empty [''second'' \<mapsto> (empty_group :: unit node)]])
   \<and> fst (snd (file_writer \<lparr>writer_init = \<lambda>k s. None, writer_write = \<lambda>k s g. (None, g)\<rparr>
        ''3.1'' Map.empty ''e.zspy''
        \<lparr>General_title = ''second'', signal_dimension = 1, metadata_Signal = Map.empty,
         payload = ()\<rparr>
        [''compressor'' \<mapsto> KNone])) ''e.zspy''
     = Some (Group [''file_format'' \<mapsto> ''ZSpy'', ''file_format_version'' \<mapsto> ''3.1'']
               [''Experiments'' \<mapsto> Group Map.empty [''second'' \<mapsto> (empty_group :: unit node)]])"
proof -
  let ?w = "\<lparr>writer_init = \<lambda>k s. None, writer_write = \<lambda>k s g. (None, g :: unit node)\<rparr>"
  let ?s = "\<lparr>General_title = ''second'', signal_dimension = 1, metadata_Signal = Map.empty,
             payload = ()\<rparr>"
  let ?prior = "Group [''file_format'' \<mapsto> ''ZSpy'']
                  [''Experiments'' \<mapsto> Group Map.empty [''first'' \<mapsto> empty_group],
                   ''notes'' \<mapsto> empty_group] :: unit node"
  let ?k = "[''compressor'' \<mapsto> KNone]"
  have off: "\<not> write_to_storage ?k"
    by (simp add: write_to_storage_def)
  have there: "[''d.zspy'' \<mapsto> ?prior] ''d.zspy'' = Some ?prior"
    by simp
  have free: "(Map.empty :: unit fs) ''e.zspy'' = None"
    by simp
  have run: "fst (snd (file_writer ?w ''3.1'' Map.empty ''e.zspy'' ?s ?k)) ''e.zspy''
     = Some (Group [''file_format'' \<mapsto> ''ZSpy'', ''file_format_version'' \<mapsto> ''3.1'']
               [''Experiments'' \<mapsto> Group Map.empty [''second'' \<mapsto> (empty_group :: unit node)]])"
    by (simp add: file_writer_fresh [OF off] injected_def group_name_def)
  from file_writer_replaces_prior_tree [where kwds = ?k and fs = "[''d.zspy'' \<mapsto> ?prior]"
      and filename = "''d.zspy''" and prior = ?prior and fs' = Map.empty
      and filename' = "''e.zspy''" and w = ?w and version = "''3.1''" and signal = ?s]
    off there free run
  show ?thesis
    by simp
qed

text \<open>
  Claim C4 as it is stated fails for a call with \<open>write_to_storage=True\<close>. A first signal
  is saved to a fresh path. A second save to that path with the option opens the root
  that is there, finds the group \<open>Experiments\<close> and raises; the group of the first signal
  is still there and none for the second signal is. A save of the second signal to a
  fresh path completes and leaves a group for it.
\<close>

theorem file_writer_write_to_storage_keeps_prior_tree:
  "file_writer idle_writer ''3.1'' Map.empty ''a.zspy'' (titled ''first'') Map.empty
     = (None,
        [''a.zspy'' \<mapsto>
           Group [''file_format'' \<mapsto> ''ZSpy'', ''file_format_version'' \<mapsto> ''3.1'']
             [''Experiments'' \<mapsto> Group Map.empty [''first'' \<mapsto> empty_group]]],
        titled ''first'')
   \<and> file_writer idle_writer ''3.1''
        [''a.zspy'' \<mapsto>
           Group [''file_format'' \<mapsto> ''ZSpy'', ''file_format_version'' \<mapsto> ''3.1'']
             [''Experiments'' \<mapsto> Group Map.empty [''first'' \<mapsto> empty_group]]]
        ''a.zspy'' (titled ''second'') [''write_to_storage'' \<mapsto> KBool True]
     = (Some (ContainsGroupError ''Experiments''),
        [''a.zspy'' \<mapsto>
           Group [''file_format'' \<mapsto> ''ZSpy'', ''file_format_version'' \<mapsto> ''3.1'']
             [''Experiments'' \<mapsto> Group Map.empty [''first'' \<mapsto> empty_group]]],
        titled ''second'')
   \<and> file_writer idle_writer ''3.1'' Map.empty ''b.zspy'' (titled ''second'')
        [''write_to_storage'' \<mapsto> KBool True]
     = (None,
        [''b.zspy'' \<mapsto>
           Group [''file_format'' \<mapsto> ''ZSpy'', ''file_format_version'' \<mapsto> ''3.1'']
             [''Experiments'' \<mapsto> Group Map.empty [''second'' \<mapsto> empty_group]]],
        titled ''second'')
   \<and> get_path [''Experiments'', ''first'']
        (Group [''file_format'' \<mapsto> ''ZSpy'', ''file_format_version'' \<mapsto> ''3.1'']
           [''Experiments'' \<mapsto> Group Map.empty [''first'' \<mapsto> empty_group]])
     = Some (empty_group :: unit node)
   \<and> get_path [''Experiments'', ''first'']
        (Group [''file_format'' \<mapsto> ''ZSpy'', ''file_format_version'' \<mapsto> ''3.1'']
           [''Experiments'' \<mapsto> Group Map.empty [''second'' \<mapsto> empty_group]])
     = (None :: unit node option)
   \<and> Group [''file_format'' \<mapsto> ''ZSpy'', ''file_format_version'' \<mapsto> ''3.1'']
        [''Experiments'' \<mapsto> Group Map.empty [''first'' \<mapsto> empty_group]]
     \<noteq> (Group [''file_format'' \<mapsto> ''ZSpy'', ''file_format_version'' \<mapsto> ''3.1'']
          [''Experiments'' \<mapsto> Group Map.empty [''second'' \<mapsto> empty_group]] :: unit node)"
proof -
  let ?k = "[''write_to_storage'' \<mapsto> KBool True]"
  let ?attrs = "[''file_format'' \<mapsto> ''ZSpy'', ''file_format_version'' \<mapsto> ''3.1'']"
  let ?tree = "\<lambda>name. Group ?attrs
                  [''Experiments'' \<mapsto> Group Map.empty [name \<mapsto> (empty_group :: unit node)]]"
  have off: "\<not> write_to_storage Map.empty"
    by (simp add: write_to_storage_def)
  have saved: "file_writer idle_writer ''3.1'' Map.empty ''a.zspy'' (titled ''first'') Map.empty
                 = (None, [''a.zspy'' \<mapsto> ?tree ''first''], titled ''first'')"
    by (simp add: file_writer_fresh [OF off] injected_def cleaned_def group_name_def
          idle_writer_def titled_def)
  have again: "file_writer idle_writer ''3.1'' [''a.zspy'' \<mapsto> ?tree ''first''] ''a.zspy''
                 (titled ''second'') ?k
                 = (Some (ContainsGroupError ''Experiments''),
                    [''a.zspy'' \<mapsto> ?tree ''first''], titled ''second'')"
    by (simp add: file_writer_def Let_def open_root_def with_compressor_def
          write_to_storage_def zarr_open_def empty_group_def)
  have fresh: "file_writer idle_writer ''3.1'' Map.empty ''b.zspy'' (titled ''second'') ?k
                 = (None, [''b.zspy'' \<mapsto> ?tree ''second''], titled ''second'')"
    by (simp add: file_writer_def Let_def open_root_def with_compressor_def
          write_to_storage_def zarr_open_def empty_group_def group_name_def record_by_def
          idle_writer_def titled_def fun_upd_twist)
  have here: "get_path [''Experiments'', ''first''] (?tree ''first'') = Some empty_group"
    by simp
  have gone: "get_path [''Experiments'', ''first''] (?tree ''second'') = None"
    by simp
  have differ: "?tree ''first'' \<noteq> ?tree ''second''"
  proof
    assume "?tree ''first'' = ?tree ''second''"
    then have "get_path [''Experiments'', ''first''] (?tree ''first'')
                 = get_path [''Experiments'', ''first''] (?tree ''second'')"
      by (rule arg_cong)
    then show False
      by simp
  qed
  from saved again fresh here gone differ show ?thesis
    by simp
qed

section \<open>Properties of \<open>file_reader\<close>\<close>

text \<open>
  Claim C3. When the store opens and the version stored in it is newer than the version
  of the reader, \<open>file_reader\<close> issues the warning and then returns or raises just what
  \<open>reader.read(lazy)\<close> returns or raises. The comparison of the versions has no part in
  that result: it is the result of the same call with a comparison that never holds.
\<close>

theorem file_reader_newer_version_warns:
  assumes "open_store r filename (case kwds ''mode'' of None \<Rightarrow> KStr ''r'' | Some m \<Rightarrow> m)
             (kwds(''mode'' := None)) = Inr f"
    and "stored_version r f = Inr v"
    and "newer r v version"
  shows "file_reader r version filename lazy kwds warnings
           = (reader_read r f lazy, warnings @ [newer_version_warning])
       \<and> fst (file_reader r version filename lazy kwds warnings)
           = fst (file_reader (r\<lparr>newer := \<lambda>v version. False\<rparr>) version filename lazy kwds warnings)"
  using assms by (simp add: file_reader_def Let_def)

theorem file_reader_newer_version_warns_witness:
  "file_reader
     \<lparr>open_store = \<lambda>filename mode kwds.
        if mode = KStr ''r'' then Inr filename else Inl (PyException ''PermissionError''),
      stored_version = \<lambda>f. Inr ''3.2'',
      newer = \<lambda>v version. (v, version) = (''3.2'', ''3.1''),
      reader_read = \<lambda>f lazy. Inr (f, lazy)\<rparr>
     ''3.1'' ''a.zspy'' True Map.empty []
   = (Inr (''a.zspy'', True), [newer_version_warning])"
proof -
  let ?r = "\<lparr>open_store = \<lambda>filename mode (kwds :: kwds).
        if mode = KStr ''r'' then Inr filename else Inl (PyException ''PermissionError''),
      stored_version = \<lambda>f :: string. Inr ''3.2'' :: error + string,
      newer = \<lambda>v version. (v, version) = (''3.2'', ''3.1''),
      reader_read = \<lambda>f lazy. Inr (f, lazy) :: error + string \<times> bool\<rparr>"
  have "open_store ?r ''a.zspy'' (case Map.empty ''mode'' of None \<Rightarrow> KStr ''r'' | Some m \<Rightarrow> m)
          (Map.empty(''mode'' := None)) = Inr ''a.zspy''"
    by simp
  moreover have "stored_version ?r ''a.zspy'' = Inr ''3.2''"
    by simp
  moreover have "newer ?r ''3.2'' ''3.1''"
    by simp
  ultimately show ?thesis
    using file_reader_newer_version_warns [where r = ?r and filename = "''a.zspy''"
        and kwds = Map.empty and f = "''a.zspy''" and v = "''3.2''" and version = "''3.1''"
        and lazy = True and warnings = "[]"]
    by simp
qed

section \<open>Properties of the dataset hooks\<close>

text \<open>
  The comparison of the source decides little: the chunks of a dask array and the chunks
  of a zarr array are equal as Python values only when both are the empty tuple, the
  chunks of an array of rank 0. For every other array \<open>rechunk\<close> is called, and it is
  \<open>rechunk\<close> that leaves an array with the blocks of the target as it is.
\<close>

lemma chunks_ne_iff: "chunks_ne dc zc \<longleftrightarrow> \<not> (dc = [] \<and> zc = [])"
  by (cases dc; cases zc) (simp_all add: chunks_ne_def)

lemma rechunk_fits:
  assumes "length zc = length sh" and "0 \<notin> set zc"
  shows "rechunk (DaskArray sh dt ch v) zc = Inr (DaskArray sh dt (normalize_chunks zc sh) v)"
proof -
  have "\<not> list_ex (\<lambda>(d, bd). d \<noteq> 0 \<and> bd = 0) (zip sh zc)"
    using assms(2) by (auto simp: list_ex_iff dest: set_zip_rightD)
  with assms(1) show ?thesis
    by simp
qed

lemma store_data_dask:
  assumes "length (dset_chunks dset) = length sh" and "0 \<notin> set (dset_chunks dset)"
  shows "store_data (DaskArray sh dt ch v) dset grp key chunks kwds
           = Inr [ToZarr (DaskArray sh dt (normalize_chunks (dset_chunks dset) sh) v)
                    (dir_path grp @ ''/'' @ dset_path dset) True kwds]"
proof (cases "chunks_ne ch (dset_chunks dset)")
  case True
  then show ?thesis
    by (simp add: rechunk_fits [OF assms] del: rechunk.simps)
next
  case False
  then have "ch = []" and "dset_chunks dset = []"
    by (simp_all add: chunks_ne_iff)
  with False show ?thesis
    by (simp add: normalize_chunks_def)
qed

text \<open>
  Claim C8. For a dask source and a target of its rank with positive chunk lengths,
  \<open>_store_data\<close> makes one call: \<open>to_zarr\<close> at the path of the target under the directory
  of the store, with \<open>overwrite=True\<close> and the options, of the source cut into the chunks
  of the target. The array written is the source itself exactly when the source has
  those blocks already. With \<open>overwrite=True\<close> the call puts the array at the path,
  whatever was there. A source that is no dask array never leads to \<open>to_zarr\<close>: an array
  of objects is assigned to the data set of the group, any other array is assigned to an
  array opened anew.
\<close>

theorem store_data_lazy_path:
  assumes "length (dset_chunks dset) = length sh" and "0 \<notin> set (dset_chunks dset)"
  shows "(\<exists>written.
            store_data (DaskArray sh dt ch v) dset grp key chunks kwds
              = Inr [ToZarr written (dir_path grp @ ''/'' @ dset_path dset) True kwds]
          \<and> written = DaskArray sh dt (normalize_chunks (dset_chunks dset) sh) v
          \<and> (written = DaskArray sh dt ch v \<longleftrightarrow> ch = normalize_chunks (dset_chunks dset) sh)
          \<and> to_zarr written (dir_path grp @ ''/'' @ dset_path dset) True store
              = Inr (store(dir_path grp @ ''/'' @ dset_path dset \<mapsto> written)))
       \<and> store_data (NdArray sh' object v') dset grp key chunks kwds
           = Inr [SetItems grp key (NdArray sh' object v')]
       \<and> (dt' \<noteq> object \<longrightarrow>
            store_data (NdArray sh' dt' v') dset grp key chunks kwds
              = Inr [OpenArray (dir_path grp @ ''/'' @ dset_path dset) ''w'' sh' dt' chunks kwds,
                     AssignAll (dir_path grp @ ''/'' @ dset_path dset) (NdArray sh' dt' v')])"
proof -
  let ?written = "DaskArray sh dt (normalize_chunks (dset_chunks dset) sh) v"
  let ?url = "dir_path grp @ ''/'' @ dset_path dset"
  have "store_data (DaskArray sh dt ch v) dset grp key chunks kwds
          = Inr [ToZarr ?written ?url True kwds]"
    by (rule store_data_dask [OF assms])
  moreover have "?written = DaskArray sh dt ch v \<longleftrightarrow> ch = normalize_chunks (dset_chunks dset) sh"
    by auto
  moreover have "to_zarr ?written ?url True store = Inr (store(?url \<mapsto> ?written))"
    by (simp add: to_zarr_def)
  moreover have "store_data (NdArray sh' object v') dset grp key chunks kwds
           = Inr [SetItems grp key (NdArray sh' object v')]"
    by simp
  moreover have "dt' \<noteq> object \<longrightarrow>
            store_data (NdArray sh' dt' v') dset grp key chunks kwds
              = Inr [OpenArray ?url ''w'' sh' dt' chunks kwds, AssignAll ?url (NdArray sh' dt' v')]"
    by (simp add: Let_def)
  ultimately show ?thesis
    by blast
qed

theorem store_data_lazy_path_witness:
  "store_data (DaskArray [5, 10, 10] float64 [ [5], [10], [10] ] ())
       \<lparr>dset_path = ''Experiments/__unnamed__/data'', dset_chunks = [5, 5, 5]\<rparr>
       \<lparr>dir_path = ''/tmp/a.zspy'', group_path = ''Experiments/__unnamed__''\<rparr>
       ''data'' (KTuple [5, 5, 5]) [''compressor'' \<mapsto> KBlosc ''zstd'' 1]
     = Inr [ToZarr (DaskArray [5, 10, 10] float64 [ [5], [5, 5], [5, 5] ] ())
              ''/tmp/a.zspy/Experiments/__unnamed__/data'' True
              [''compressor'' \<mapsto> KBlosc ''zstd'' 1]]
   \<and> store_data (DaskArray [5, 10, 10] float64 [ [5], [5, 5], [5, 5] ] ())
       \<lparr>dset_path = ''Experiments/__unnamed__/data'', dset_chunks = [5, 5, 5]\<rparr>
       \<lparr>dir_path = ''/tmp/a.zspy'', group_path = ''Experiments/__unnamed__''\<rparr>
       ''data'' (KTuple [5, 5, 5]) [''compressor'' \<mapsto> KBlosc ''zstd'' 1]
     = Inr [ToZarr (DaskArray [5, 10, 10] float64 [ [5], [5, 5], [5, 5] ] ())
              ''/tmp/a.zspy/Experiments/__unnamed__/data'' True
              [''compressor'' \<mapsto> KBlosc ''zstd'' 1]]
   \<and> store_data (NdArray [5, 10, 10] float64 ())
       \<lparr>dset_path = ''Experiments/__unnamed__/data'', dset_chunks = [5, 5, 5]\<rparr>
       \<lparr>dir_path = ''/tmp/a.zspy'', group_path = ''Experiments/__unnamed__''\<rparr>
       ''data'' (KTuple [5, 5, 5]) [''compressor'' \<mapsto> KBlosc ''zstd'' 1]
     = Inr [OpenArray ''/tmp/a.zspy/Experiments/__unnamed__/data'' ''w'' [5, 10, 10] float64
              (KTuple [5, 5, 5]) [''compressor'' \<mapsto> KBlosc ''zstd'' 1],
            AssignAll ''/tmp/a.zspy/Experiments/__unnamed__/data''
              (NdArray [5, 10, 10] float64 ())]"
proof -
  let ?dset = "\<lparr>dset_path = ''Experiments/__unnamed__/data'', dset_chunks = [5, 5, 5]\<rparr>"
  let ?grp = "\<lparr>dir_path = ''/tmp/a.zspy'', group_path = ''Experiments/__unnamed__''\<rparr>"
  let ?k = "[''compressor'' \<mapsto> KBlosc ''zstd'' 1]"
  have rank: "length (dset_chunks ?dset) = length [5, 10, 10 :: nat]"
    by simp
  have pos: "0 \<notin> set (dset_chunks ?dset)"
    by simp
  have cut: "normalize_chunks [5, 5, 5] [5, 10, 10] = [ [5], [5, 5], [5, 5] ]"
    by code_simp
  have neq: "float64 \<noteq> object"
    by simp
  from store_data_lazy_path [OF rank pos, where dt = float64 and ch = "[ [5], [10], [10] ]"
      and v = "()" and grp = ?grp and key = "''data''" and chunks = "KTuple [5, 5, 5]"
      and kwds = ?k and dt' = float64 and sh' = "[5, 10, 10]" and v' = "()"]
    store_data_lazy_path [OF rank pos, where dt = float64 and ch = "[ [5], [5, 5], [5, 5] ]"
      and v = "()" and grp = ?grp and key = "''data''" and chunks = "KTuple [5, 5, 5]"
      and kwds = ?k and dt' = float64 and sh' = "[5, 10, 10]" and v' = "()"]
    cut neq
  show ?thesis
    by simp
qed

text \<open>
  Claim C9, as amended. The data set of a ragged source is required of the group under
  the key with the shape of the source, the codec for integer sequences of variable
  length, the element type \<open>object\<close>, the chunks asked for and \<open>exact\<close>, whatever the
  options say of these three; the other options pass through. For a ragged source in
  memory, \<open>_store_data\<close> makes one call, the assignment of the source to the data set of
  the group under the key: it plans no chunks and cuts nothing.
\<close>

theorem ragged_in_memory_is_assigned:
  "(\<exists>these_kwds.
      get_object_dset grp data key chunks kwds
        = RequireDataset grp key (shape_of data) VLenArray_int these_kwds
    \<and> these_kwds ''dtype'' = Some (KDtype object)
    \<and> these_kwds ''exact'' = Some (KBool True)
    \<and> these_kwds ''chunks'' = Some chunks
    \<and> (\<forall>k. k \<notin> {''dtype'', ''exact'', ''chunks''} \<longrightarrow> these_kwds k = kwds k))
   \<and> store_data (NdArray sh object v) dset grp key chunks kwds
       = Inr [SetItems grp key (NdArray sh object v)]"
  by (simp add: get_object_dset_def)

theorem ragged_in_memory_is_assigned_witness:
  "get_object_dset \<lparr>dir_path = ''/tmp/r.zspy'', group_path = ''Experiments/__unnamed__''\<rparr>
       (NdArray [2] object [ [0, 1], [0, 1, 2 :: nat] ]) ''data'' KNone
       [''compressor'' \<mapsto> KBlosc ''zstd'' 1, ''dtype'' \<mapsto> KDtype int64]
     = RequireDataset \<lparr>dir_path = ''/tmp/r.zspy'', group_path = ''Experiments/__unnamed__''\<rparr>
         ''data'' [2] VLenArray_int
         [''compressor'' \<mapsto> KBlosc ''zstd'' 1, ''dtype'' \<mapsto> KDtype object,
          ''exact'' \<mapsto> KBool True, ''chunks'' \<mapsto> KNone]
   \<and> store_data (NdArray [2] object [ [0, 1], [0, 1, 2 :: nat] ])
       \<lparr>dset_path = ''Experiments/__unnamed__/data'', dset_chunks = [2]\<rparr>
       \<lparr>dir_path = ''/tmp/r.zspy'', group_path = ''Experiments/__unnamed__''\<rparr>
       ''data'' KNone [''compressor'' \<mapsto> KBlosc ''zstd'' 1]
     = Inr [SetItems \<lparr>dir_path = ''/tmp/r.zspy'', group_path = ''Experiments/__unnamed__''\<rparr>
              ''data'' (NdArray [2] object [ [0, 1], [0, 1, 2] ])]"
proof -
  let ?grp = "\<lparr>dir_path = ''/tmp/r.zspy'', group_path = ''Experiments/__unnamed__''\<rparr>"
  let ?data = "NdArray [2] object [ [0, 1], [0, 1, 2 :: nat] ]"
  let ?k = "[''compressor'' \<mapsto> KBlosc ''zstd'' 1, ''dtype'' \<mapsto> KDtype int64]"
  from ragged_in_memory_is_assigned [where grp = ?grp and data = ?data and key = "''data''"
      and chunks = KNone and kwds = ?k and sh = "[2]" and v = "[ [0, 1], [0, 1, 2 :: nat] ]"
      and dset = "\<lparr>dset_path = ''Experiments/__unnamed__/data'', dset_chunks = [2]\<rparr>"]
  show ?thesis
    by (simp add: get_object_dset_def)
qed

text \<open>
  Claim C9 as it is stated fails for a ragged source that is a dask array: the test for
  a dask array comes first in \<open>_store_data\<close>. Four ragged rows in one block, saved to a
  data set with chunks of two rows, are cut into two blocks and written by \<open>to_zarr\<close>;
  no element is assigned to the data set of the group.
\<close>

theorem store_data_lazy_ragged_is_rechunked:
  "store_data (DaskArray [4] object [ [4] ] [ [0, 1], [0, 1, 2], [3], [4, 5 :: nat] ])
       \<lparr>dset_path = ''Experiments/__unnamed__/data'', dset_chunks = [2]\<rparr>
       \<lparr>dir_path = ''/tmp/r.zspy'', group_path = ''Experiments/__unnamed__''\<rparr>
       ''data'' (KTuple [2]) Map.empty
     = Inr [ToZarr (DaskArray [4] object [ [2, 2] ] [ [0, 1], [0, 1, 2], [3], [4, 5] ])
              ''/tmp/r.zspy/Experiments/__unnamed__/data'' True Map.empty]
   \<and> store_data (DaskArray [4] object [ [4] ] [ [0, 1], [0, 1, 2], [3], [4, 5 :: nat] ])
       \<lparr>dset_path = ''Experiments/__unnamed__/data'', dset_chunks = [2]\<rparr>
       \<lparr>dir_path = ''/tmp/r.zspy'', group_path = ''Experiments/__unnamed__''\<rparr>
       ''data'' (KTuple [2]) Map.empty
     \<noteq> Inr [SetItems \<lparr>dir_path = ''/tmp/r.zspy'', group_path = ''Experiments/__unnamed__''\<rparr>
              ''data'' (DaskArray [4] object [ [4] ] [ [0, 1], [0, 1, 2], [3], [4, 5] ])]"
proof -
  have cut: "normalize_chunks [2] [4] = [ [2, 2] ]"
    by code_simp
  show ?thesis
    by (simp add: chunks_ne_def cut del: normalize_chunks_def)
qed

section \<open>Properties of the type codec\<close>

lemma ZspyWriter_kwds:
  "unicode_kwds ''dtype'' = Some (KDtype object)
   \<and> unicode_kwds ''object_codec'' = Some (KCodec JSON)
   \<and> ragged_kwds ''dtype'' = Some (KDtype object)
   \<and> ragged_kwds ''object_codec'' = Some (KCodec VLenArray_int)
   \<and> ragged_kwds ''exact'' = Some (KBool True)"
  by (simp add: unicode_kwds_def ragged_kwds_def)






end
